theory Spec2Isabelle
  imports Main "HOL-Library.Sublist"
begin

section \<open>The sidecar host-path cleanup script\<close>

text \<open>
  The development embeds the shell script that reclaims the host-path directories left
  behind by deleted Pods (\<^verbatim>\<open>validate_path_format\<close>, \<^verbatim>\<open>is_mounted\<close>,
  \<^verbatim>\<open>get_dir_age_days\<close>, \<^verbatim>\<open>safe_remove_dir\<close>, \<^verbatim>\<open>cleanup_parent_dir\<close>,
  \<^verbatim>\<open>main_cleanup\<close>). Shell strings are \<^typ>\<open>string\<close>; the external utilities the
  script calls (find, ls, stat, rmdir, grep, realpath, date) are functions on an explicit
  model of the file system and of the two mount tables.
\<close>

subsection \<open>Path format validation\<close>

text \<open>
  \<^verbatim>\<open>local rel_path="${path#${base_path}/}"\<close> removes the shortest leading match of the
  word \<^verbatim>\<open>${base_path}/\<close>, which the shell reads as a pattern. For a base path without
  the pattern characters \<^verbatim>\<open>* ? [ \\<close> the pattern matches only itself, and the removal
  is the removal of a literal prefix: that is what \<open>strip_base\<close> does. \<open>literal_word\<close>
  marks the base paths for which the two agree.
\<close>

definition literal_word :: "string \<Rightarrow> bool" where
  "literal_word w = (\<forall>c \<in> set w. c \<notin> {CHR ''*'', CHR ''?'', CHR ''['', CHR 0x5C})"

definition strip_base :: "string \<Rightarrow> string \<Rightarrow> string" where
  "strip_base path base_path =
     (if prefix (base_path @ ''/'') path then drop (length base_path + 1) path else path)"

text \<open>
  \<^verbatim>\<open>IFS='/' read -ra PARTS <<< "$rel_path"\<close> reads one line, the text before the first
  newline, and splits it at every \<^verbatim>\<open>/\<close>: each separator ends a field (so two adjacent
  separators enclose an empty field and a leading separator gives an empty first field),
  and what follows the last separator is a field only when it is not empty.
\<close>

definition newline :: char where
  "newline = CHR 0x0A"

definition first_line :: "string \<Rightarrow> string" where
  "first_line s = takeWhile (\<lambda>c. c \<noteq> newline) s"

text \<open>A path component as a directory entry gives it: one line, without separator.\<close>

definition component :: "string \<Rightarrow> bool" where
  "component n = (CHR ''/'' \<notin> set n \<and> newline \<notin> set n)"

fun fields_acc :: "string \<Rightarrow> string \<Rightarrow> string list" where
  "fields_acc cur [] = (if cur = [] then [] else [cur])"
| "fields_acc cur (c # cs) =
     (if c = CHR ''/'' then cur # fields_acc [] cs else fields_acc (cur @ [c]) cs)"

definition read_parts :: "string \<Rightarrow> string list" where
  "read_parts rel_path = fields_acc [] (first_line rel_path)"

text \<open>
  The extended regular expression \<^verbatim>\<open>^[0-9]+-[a-z0-9]+$\<close>, with the ranges read in the
  C locale. A dash is not a digit, so the digits before it are the longest run of digits
  at the start of the string.
\<close>

definition is_digit :: "char \<Rightarrow> bool" where
  "is_digit c = (c \<in> set ''0123456789'')"

definition is_lower_alnum :: "char \<Rightarrow> bool" where
  "is_lower_alnum c = (c \<in> set ''abcdefghijklmnopqrstuvwxyz0123456789'')"

definition matches_timestamp_dir :: "string \<Rightarrow> bool" where
  "matches_timestamp_dir s =
     (takeWhile is_digit s \<noteq> [] \<and>
      (case dropWhile is_digit s of
         [] \<Rightarrow> False
       | c # t \<Rightarrow> c = CHR ''-'' \<and> t \<noteq> [] \<and> list_all is_lower_alnum t))"

definition validate_path_format :: "string \<Rightarrow> string \<Rightarrow> bool" where
  "validate_path_format path base_path =
     (let rel_path = strip_base path base_path;
          parts = read_parts rel_path
      in if length parts < 3 then False
         else if \<not> matches_timestamp_dir (parts ! 1) then False
         else if \<not> suffix ''-fuse-mount'' (last parts) then False
         else True)"

subsection \<open>File system, clock and mount tables\<close>

text \<open>
  The tree below \<^verbatim>\<open>BASE_DIR\<close>: a directory has a modification time and named entries,
  in the order in which find and ls list them. Entry names are taken as the kernel gives
  them: not empty, without \<^verbatim>\<open>/\<close>, and (an assumption of the model) without newline,
  so that a line of output of find or ls is one entry. Every path the script holds was
  printed by find below \<^verbatim>\<open>BASE_DIR\<close>, or is the \<^verbatim>\<open>dirname\<close> of such a path; the
  model names a directory by the entry names that lead to it from \<^verbatim>\<open>BASE_DIR\<close>
  (its location), and \<open>path_of\<close> gives the string the script holds for it.
  Nothing but the script changes the tree during a run, and the clock stands still.
\<close>

datatype node = is_File: File int | is_Dir: Dir int "(string \<times> node) list"

type_synonym loc = "string list"

record sys =
  root :: node
  mountinfo :: "string list option"
  mounts :: "string list option"
  realpath :: "string \<Rightarrow> string option"
  now :: int

text \<open>
  The configuration holds what the options set: for \<^verbatim>\<open>--threshold\<close> and
  \<^verbatim>\<open>--age-days\<close> the integer that the argument denotes (a decimal numeral without a
  leading zero denotes itself), of any size. The shell computes
  and compares in signed 64-bit arithmetic and reads a number that does not fit there
  modulo \<open>2^64\<close>: \<open>wrap64\<close> is the value it works with, and every comparison and
  subtraction of the script is made on such values. \<^verbatim>\<open>BASE_DIR\<close> is taken to be a
  literal word (see \<open>literal_word\<close>).
\<close>

record config =
  BASE_DIR :: string
  THRESHOLD :: int
  AGE_DAYS :: int
  DRY_RUN :: bool

definition wrap64 :: "int \<Rightarrow> int" where
  "wrap64 x = (x + 9223372036854775808) mod 18446744073709551616 - 9223372036854775808"

text \<open>find prints an entry of the directory \<open>d\<close> as \<open>d/n\<close>, and as \<open>dn\<close> when \<open>d\<close>
  already ends with a separator.\<close>

definition join_path :: "string \<Rightarrow> string \<Rightarrow> string" where
  "join_path d n = (if d \<noteq> [] \<and> last d = CHR ''/'' then d @ n else d @ ''/'' @ n)"

definition path_of :: "string \<Rightarrow> loc \<Rightarrow> string" where
  "path_of base dir = foldl join_path base dir"

fun lookup :: "node \<Rightarrow> loc \<Rightarrow> node option"
  and lookup_in :: "(string \<times> node) list \<Rightarrow> string \<Rightarrow> loc \<Rightarrow> node option" where
  "lookup n [] = Some n"
| "lookup (File m) (c # cs) = None"
| "lookup (Dir m es) (c # cs) = lookup_in es c cs"
| "lookup_in [] c cs = None"
| "lookup_in (e # es) c cs = (if fst e = c then lookup (snd e) cs else lookup_in es c cs)"

text \<open>\<^verbatim>\<open>[[ -d "$dir" ]]\<close>\<close>

definition is_dir :: "sys \<Rightarrow> loc \<Rightarrow> bool" where
  "is_dir s dir = (case lookup (root s) dir of Some (Dir m es) \<Rightarrow> True | _ \<Rightarrow> False)"

text \<open>The lines that \<^verbatim>\<open>ls -A "$dir" 2>/dev/null\<close> prints: every entry, hidden ones
  included, only \<^verbatim>\<open>.\<close> and \<^verbatim>\<open>..\<close> left out; the path itself for a file; nothing when
  there is no such path.\<close>

definition ls_A :: "config \<Rightarrow> sys \<Rightarrow> loc \<Rightarrow> string list" where
  "ls_A cfg s dir =
     (case lookup (root s) dir of
        None \<Rightarrow> []
      | Some (File m) \<Rightarrow> [path_of (BASE_DIR cfg) dir]
      | Some (Dir m es) \<Rightarrow> map fst es)"

text \<open>\<^verbatim>\<open>find "$dir" -mindepth 1 -maxdepth 1 -type d\<close>\<close>

definition subdirs :: "sys \<Rightarrow> loc \<Rightarrow> loc list" where
  "subdirs s dir =
     (case lookup (root s) dir of
        Some (Dir m es) \<Rightarrow> map (\<lambda>e. dir @ [fst e]) (filter (\<lambda>e. is_Dir (snd e)) es)
      | _ \<Rightarrow> [])"

text \<open>\<^verbatim>\<open>find "$parent_dir" -mindepth 2 -maxdepth 2 -type d -name "*-fuse-mount"\<close>\<close>

definition find_fuse_mount_dirs :: "sys \<Rightarrow> loc \<Rightarrow> loc list" where
  "find_fuse_mount_dirs s parent_dir =
     concat (map (\<lambda>d. filter (\<lambda>l. suffix ''-fuse-mount'' (last l)) (subdirs s d))
                 (subdirs s parent_dir))"

text \<open>
  \<^verbatim>\<open>rmdir "$dir"\<close> removes the entry of an empty directory and stamps the directory that
  held it with the current time; it fails on a file, on a missing path and on a directory
  that has any entry. \<^verbatim>\<open>BASE_DIR\<close> itself is never its argument.
\<close>

fun remove_at :: "int \<Rightarrow> node \<Rightarrow> loc \<Rightarrow> node option"
  and remove_in :: "int \<Rightarrow> (string \<times> node) list \<Rightarrow> string \<Rightarrow> loc \<Rightarrow> (string \<times> node) list option" where
  "remove_at t n [] = None"
| "remove_at t (File m) (c # cs) = None"
| "remove_at t (Dir m es) (c # cs) =
     map_option (Dir (if cs = [] then t else m)) (remove_in t es c cs)"
| "remove_in t [] c cs = None"
| "remove_in t (e # es) c cs =
     (if fst e = c then
        (if cs = [] then (case snd e of Dir m [] \<Rightarrow> Some es | _ \<Rightarrow> None)
         else map_option (\<lambda>n. (fst e, n) # es) (remove_at t (snd e) cs))
      else map_option ((#) e) (remove_in t es c cs))"

definition rmdir :: "sys \<Rightarrow> loc \<Rightarrow> sys option" where
  "rmdir s dir = map_option (\<lambda>r. s\<lparr>root := r\<rparr>) (remove_at (now s) (root s) dir)"

subsection \<open>Mount probe\<close>

text \<open>
  \<^verbatim>\<open>grep -q " ${real_dir} " file 2>/dev/null\<close>: some line of the file contains the
  pattern; a file that cannot be read gives no match and no message. The pattern is
  taken as a fixed string (grep reads it as a basic regular expression, which agrees for
  a path without the characters special there). A mount table is the list of its lines,
  or \<open>None\<close> when it cannot be read.
\<close>

fun has_infix :: "string \<Rightarrow> string \<Rightarrow> bool" where
  "has_infix pat [] = (pat = [])"
| "has_infix pat (c # cs) = (prefix pat (c # cs) \<or> has_infix pat cs)"

definition grep_q :: "string \<Rightarrow> string list option \<Rightarrow> bool" where
  "grep_q pat file = (case file of None \<Rightarrow> False | Some ls \<Rightarrow> list_ex (has_infix pat) ls)"

text \<open>\<^verbatim>\<open>find "$dir" -maxdepth 1 -name ".fuse_hidden*" 2>/dev/null | grep -q .\<close> looks at
  the directory itself and at its entries.\<close>

definition fuse_hidden :: "sys \<Rightarrow> loc \<Rightarrow> bool" where
  "fuse_hidden s dir =
     (case lookup (root s) dir of
        None \<Rightarrow> False
      | Some (File m) \<Rightarrow> dir \<noteq> [] \<and> prefix ''.fuse_hidden'' (last dir)
      | Some (Dir m es) \<Rightarrow> (dir \<noteq> [] \<and> prefix ''.fuse_hidden'' (last dir))
                          \<or> list_ex (\<lambda>e. prefix ''.fuse_hidden'' (fst e)) es)"

definition is_mounted :: "config \<Rightarrow> sys \<Rightarrow> loc \<Rightarrow> bool" where
  "is_mounted cfg s dir =
     (let d = path_of (BASE_DIR cfg) dir;
          real_dir = (case realpath s d of Some r \<Rightarrow> r | None \<Rightarrow> d)
      in if grep_q ('' '' @ real_dir @ '' '') (mountinfo s) then True
         else if grep_q ('' '' @ real_dir @ '' '') (mounts s) then True
         else if fuse_hidden s dir then True
         else False)"

subsection \<open>Directory age\<close>

text \<open>
  Shell arithmetic is signed 64-bit and divides with truncation towards zero. When stat
  fails, \<^verbatim>\<open>dir_mtime\<close> is empty and counts as 0 in
  \<^verbatim>\<open>$((current_time - dir_mtime))\<close>.
\<close>

definition tdiv :: "int \<Rightarrow> int \<Rightarrow> int" where
  "tdiv a b = sgn a * sgn b * (\<bar>a\<bar> div \<bar>b\<bar>)"

definition stat_mtime :: "sys \<Rightarrow> loc \<Rightarrow> int option" where
  "stat_mtime s dir =
     (case lookup (root s) dir of
        None \<Rightarrow> None
      | Some (File m) \<Rightarrow> Some m
      | Some (Dir m es) \<Rightarrow> Some m)"

definition get_dir_age_days :: "sys \<Rightarrow> loc \<Rightarrow> int" where
  "get_dir_age_days s dir =
     (let current_time = now s;
          dir_mtime = (case stat_mtime s dir of Some m \<Rightarrow> m | None \<Rightarrow> 0);
          age_seconds = wrap64 (wrap64 current_time - wrap64 dir_mtime)
      in tdiv age_seconds 86400)"

subsection \<open>Removal and sweep\<close>

text \<open>
  A run is observed through the removals it makes: the directory and the state just
  before, \<open>Removed\<close> by rmdir or, in a dry run, \<open>Would_remove\<close>, only announced.
\<close>

datatype removal = Removed loc sys | Would_remove loc sys

fun target :: "removal \<Rightarrow> loc" where
  "target (Removed dir s) = dir"
| "target (Would_remove dir s) = dir"

fun before :: "removal \<Rightarrow> sys" where
  "before (Removed dir s) = s"
| "before (Would_remove dir s) = s"

definition safe_remove_dir :: "config \<Rightarrow> sys \<Rightarrow> loc \<Rightarrow> bool \<times> sys \<times> removal list" where
  "safe_remove_dir cfg s dir =
     (if is_mounted cfg s dir then (False, s, [])
      else if ls_A cfg s dir \<noteq> [] then (False, s, [])
      else if DRY_RUN cfg then (True, s, [Would_remove dir s])
      else (case rmdir s dir of
              Some s' \<Rightarrow> (True, s', [Removed dir s])
            | None \<Rightarrow> (False, s, [])))"

record sweep =
  st :: sys
  deleted_count :: nat
  skipped_count :: nat
  removals :: "removal list"

text \<open>The body of the loop of \<^verbatim>\<open>cleanup_parent_dir\<close>, for one directory that find
  printed; \<^verbatim>\<open>dirname\<close> of its path is the path of the directory that holds it.\<close>

definition sweep_leaf :: "config \<Rightarrow> loc \<Rightarrow> sweep \<Rightarrow> sweep" where
  "sweep_leaf cfg fuse_mount_dir w =
     (if \<not> validate_path_format (path_of (BASE_DIR cfg) fuse_mount_dir) (BASE_DIR cfg)
      then w\<lparr>skipped_count := skipped_count w + 1\<rparr>
      else if get_dir_age_days (st w) fuse_mount_dir < wrap64 (AGE_DAYS cfg)
      then w\<lparr>skipped_count := skipped_count w + 1\<rparr>
      else if is_mounted cfg (st w) fuse_mount_dir
      then w\<lparr>skipped_count := skipped_count w + 1\<rparr>
      else (case safe_remove_dir cfg (st w) fuse_mount_dir of
              (True, s1, r1) \<Rightarrow>
                (let timestamp_dir = butlast fuse_mount_dir;
                     w1 = w\<lparr>st := s1, deleted_count := deleted_count w + 1,
                            removals := removals w @ r1\<rparr>
                 in if is_dir s1 timestamp_dir \<and> ls_A cfg s1 timestamp_dir = []
                    then (case safe_remove_dir cfg s1 timestamp_dir of
                            (ok, s2, r2) \<Rightarrow> w1\<lparr>st := s2, removals := removals w1 @ r2\<rparr>)
                    else w1)
            | (False, s1, r1) \<Rightarrow> w\<lparr>skipped_count := skipped_count w + 1\<rparr>))"

text \<open>
  \<^verbatim>\<open>cleanup_parent_dir\<close> goes through the directories that find prints for the state
  at the start of the sweep. It writes to standard output its log lines, the first and
  the last of them whatever the directory holds, and then the number of deleted leaves.
  The lines logged in between are left out of the model.
\<close>

datatype out = Log_line | Number nat

definition cleanup_parent_dir :: "config \<Rightarrow> sys \<Rightarrow> loc \<Rightarrow> sweep \<times> out list" where
  "cleanup_parent_dir cfg s parent_dir =
     (let w = fold (sweep_leaf cfg) (find_fuse_mount_dirs s parent_dir)
                \<lparr>st = s, deleted_count = 0, skipped_count = 0, removals = []\<rparr>
      in (w, [Log_line, Log_line, Number (deleted_count w)]))"

subsection \<open>The run\<close>

text \<open>
  \<^verbatim>\<open>deleted=$(cleanup_parent_dir "$pod_dir")\<close> runs the sweep of one Pod directory in
  a subshell (where the shell has switched \<^verbatim>\<open>set -e\<close> off, so that a counter
  incremented from 0 ends nothing) and captures all it wrote. Then
  \<^verbatim>\<open>total_deleted=$((total_deleted + deleted))\<close> evaluates the captured text as an
  arithmetic expression: a number alone is its value; text that begins with a log line
  begins with the escape character of the colour code, which is no operand, and the
  shell gives up the command it is running, which is \<^verbatim>\<open>main\<close>.
\<close>

fun arith_value :: "out list \<Rightarrow> int option" where
  "arith_value [Number n] = Some (int n)"
| "arith_value other = None"

datatype exit = Completed | Arithmetic_error

fun sweep_pods :: "config \<Rightarrow> loc list \<Rightarrow> sys \<Rightarrow> int \<Rightarrow> removal list
                    \<Rightarrow> exit \<times> sys \<times> int \<times> removal list" where
  "sweep_pods cfg [] s total_deleted log = (Completed, s, total_deleted, log)"
| "sweep_pods cfg (pod_dir # rest) s total_deleted log =
     (case cleanup_parent_dir cfg s pod_dir of
        (w, deleted) \<Rightarrow>
          (case arith_value deleted of
             None \<Rightarrow> (Arithmetic_error, st w, total_deleted, log @ removals w)
           | Some n \<Rightarrow> sweep_pods cfg rest (st w) (total_deleted + n) (log @ removals w)))"

fun cleanup_pod_dirs :: "config \<Rightarrow> loc list \<Rightarrow> sys \<Rightarrow> removal list \<Rightarrow> sys \<times> removal list" where
  "cleanup_pod_dirs cfg [] s log = (s, log)"
| "cleanup_pod_dirs cfg (pod_dir # rest) s log =
     (if is_dir s pod_dir \<and> ls_A cfg s pod_dir = []
      then (case safe_remove_dir cfg s pod_dir of
              (ok, s', r) \<Rightarrow> cleanup_pod_dirs cfg rest s' (log @ r))
      else cleanup_pod_dirs cfg rest s log)"

definition total_subdirs :: "sys \<Rightarrow> nat" where
  "total_subdirs s = sum_list (map (\<lambda>pod_dir. length (subdirs s pod_dir)) (subdirs s []))"

record run =
  exit_status :: exit
  final :: sys
  trace :: "removal list"

definition main_cleanup :: "config \<Rightarrow> sys \<Rightarrow> run" where
  "main_cleanup cfg s =
     (let pod_dirs = subdirs s [];
          total = total_subdirs s
      in if wrap64 (int total) < wrap64 (THRESHOLD cfg)
         then \<lparr>exit_status = Completed, final = s, trace = []\<rparr>
         else (case sweep_pods cfg pod_dirs s 0 [] of
                 (Arithmetic_error, s1, total_deleted, log) \<Rightarrow>
                   \<lparr>exit_status = Arithmetic_error, final = s1, trace = log\<rparr>
               | (Completed, s1, total_deleted, log) \<Rightarrow>
                   (case cleanup_pod_dirs cfg pod_dirs s1 log of
                      (s2, log2) \<Rightarrow> \<lparr>exit_status = Completed, final = s2, trace = log2\<rparr>)))"

subsection \<open>Path allocation\<close>

text \<open>
  Modelled from the spec: the allocator (\<^verbatim>\<open>generateUniqueHostPath\<close> of the mutator) is
  not among the sources, only its test is. \<open>Allocate\<close> follows the specification of
  PathAllocator: the dataset name is the final non-empty component of the legacy dataset
  path, the identity segment is the Pod name or else the generate-name prefix with a
  literal suffix, the allocation id is a timestamp zero-padded to 16 digits, a dash and 8
  lower-case alphanumeric characters drawn from the entropy source \<open>rnd\<close>, and the result
  joins base, identity, allocation id and dataset name with \<^verbatim>\<open>-fuse-mount\<close> appended.
\<close>










subsection \<open>What a trace is checked against\<close>

text \<open>
  \<open>guarded\<close>: in the state just before, the mount probe did not report the directory
  mounted and the listing was empty, and the removal was performed by rmdir in a real run
  and only announced in a dry run. \<open>aged\<close>: a leaf, which lies three levels below
  \<^verbatim>\<open>BASE_DIR\<close> (Pod directory, allocation directory, mount directory), had reached the
  age threshold as the shell reads it.
\<close>

definition guarded :: "config \<Rightarrow> removal \<Rightarrow> bool" where
  "guarded cfg e =
     (\<not> is_mounted cfg (before e) (target e) \<and> ls_A cfg (before e) (target e) = [] \<and>
      (case e of Removed dir s \<Rightarrow> \<not> DRY_RUN cfg \<and> rmdir s dir \<noteq> None
               | Would_remove dir s \<Rightarrow> DRY_RUN cfg))"

definition aged :: "config \<Rightarrow> removal \<Rightarrow> bool" where
  "aged cfg e =
     (length (target e) = 3 \<longrightarrow>
        wrap64 (AGE_DAYS cfg) \<le> get_dir_age_days (before e) (target e))"

subsection \<open>Example states\<close>

text \<open>
  A base directory with two Pod directories, 100 days after the epoch of the model. The
  leaf of \<open>pod-a\<close> is 100 days old, empty and not mounted; its allocation directory was
  modified an hour ago. The leaf of \<open>pod-b\<close> holds only a hidden FUSE sentinel file.
\<close>

definition example_config :: config where
  "example_config =
     \<lparr>BASE_DIR = ''/runtime-mnt'', THRESHOLD = 1, AGE_DAYS = 90, DRY_RUN = False\<rparr>"

definition example_sys :: sys where
  "example_sys =
     \<lparr>root = Dir 0
        [(''pod-a'', Dir 0
            [(''1700000000000000-abcdefgh'', Dir 8636400 [(''data-fuse-mount'', Dir 0 [])])]),
         (''pod-b'', Dir 0
            [(''1700000000000001-abcdefgh'', Dir 0
                [(''data-fuse-mount'', Dir 0 [(''.fuse_hidden01'', File 0)])])])],
      mountinfo = Some [''36 25 0:32 / /runtime-mnt/pod-c/1-a/x-fuse-mount rw - fuse x rw''],
      mounts = Some [],
      realpath = Some,
      now = 8640000\<rparr>"

text \<open>
  The same base directory where the leaf of the first Pod directory is new (modified
  now) and the leaf of the second is 100 days old, empty and not mounted.
\<close>

definition young_first_sys :: sys where
  "young_first_sys =
     \<lparr>root = Dir 0
        [(''pod-a'', Dir 0
            [(''1700000000000000-abcdefgh'', Dir 0 [(''data-fuse-mount'', Dir 8640000 [])])]),
         (''pod-b'', Dir 0
            [(''1700000000000001-abcdefgh'', Dir 0 [(''data-fuse-mount'', Dir 0 [])])])],
      mountinfo = Some [],
      mounts = Some [],
      realpath = Some,
      now = 8640000\<rparr>"

section \<open>Properties of the path format validation\<close>

lemma first_line_id: "newline \<notin> set s \<Longrightarrow> first_line s = s"
  by (auto simp: first_line_def takeWhile_eq_all_conv)

lemma fields_acc_plain:
  "CHR ''/'' \<notin> set xs \<Longrightarrow> fields_acc cur xs = (if cur @ xs = [] then [] else [cur @ xs])"
  by (induction xs arbitrary: cur) auto

lemma fields_acc_sep:
  "CHR ''/'' \<notin> set xs \<Longrightarrow>
   fields_acc cur (xs @ CHR ''/'' # rest) = (cur @ xs) # fields_acc [] rest"
  by (induction xs arbitrary: cur) auto

lemma strip_base_below: "strip_base (base_path @ ''/'' @ r) base_path = r"
  by (simp add: strip_base_def)

lemma strip_base_other:
  "\<not> prefix (base_path @ ''/'') path \<Longrightarrow> strip_base path base_path = path"
  by (simp add: strip_base_def)

lemma fields_acc_length:
  "length (fields_acc cur s) \<le> Suc (length (filter (\<lambda>c. c = CHR ''/'') s))"
  by (induction s arbitrary: cur) auto

lemma matches_timestamp_dir_iff:
  "matches_timestamp_dir s \<longleftrightarrow>
   (\<exists>ds rs. s = ds @ ''-'' @ rs \<and> ds \<noteq> [] \<and> list_all is_digit ds
            \<and> rs \<noteq> [] \<and> list_all is_lower_alnum rs)"
proof
  assume m: "matches_timestamp_dir s"
  then obtain t where d: "dropWhile is_digit s = CHR ''-'' # t"
    and t: "t \<noteq> []" "list_all is_lower_alnum t" and n: "takeWhile is_digit s \<noteq> []"
    by (auto simp: matches_timestamp_dir_def split: list.splits)
  have "s = takeWhile is_digit s @ ''-'' @ t"
    using takeWhile_dropWhile_id [of is_digit s] d by simp
  moreover have "list_all is_digit (takeWhile is_digit s)"
    by (simp add: list_all_iff) (meson set_takeWhileD)
  ultimately show "\<exists>ds rs. s = ds @ ''-'' @ rs \<and> ds \<noteq> [] \<and> list_all is_digit ds
            \<and> rs \<noteq> [] \<and> list_all is_lower_alnum rs"
    using n t by blast
next
  assume "\<exists>ds rs. s = ds @ ''-'' @ rs \<and> ds \<noteq> [] \<and> list_all is_digit ds
            \<and> rs \<noteq> [] \<and> list_all is_lower_alnum rs"
  then obtain ds rs where s: "s = ds @ ''-'' @ rs" and ds: "ds \<noteq> []" "list_all is_digit ds"
    and rs: "rs \<noteq> []" "list_all is_lower_alnum rs" by blast
  have nd: "\<not> is_digit CHR ''-''" by (simp add: is_digit_def)
  have tw: "takeWhile is_digit s = ds"
    using ds nd by (simp add: s list_all_iff takeWhile_append2)
  have dw: "dropWhile is_digit s = ''-'' @ rs"
    using ds nd by (simp add: s list_all_iff dropWhile_append2)
  show "matches_timestamp_dir s"
    using tw dw ds rs by (simp add: matches_timestamp_dir_def)
qed

lemma read_parts_three:
  assumes "CHR ''/'' \<notin> set a" "CHR ''/'' \<notin> set b" "CHR ''/'' \<notin> set c"
    and "newline \<notin> set a" "newline \<notin> set b" "newline \<notin> set c"
  shows "read_parts (a @ ''/'' @ b @ ''/'' @ c) = (if c = [] then [a, b] else [a, b, c])"
proof -
  have nl: "newline \<notin> set (a @ ''/'' @ b @ ''/'' @ c)"
    using assms by (auto simp: newline_def)
  have "fields_acc [] (a @ CHR ''/'' # (b @ CHR ''/'' # c)) = a # fields_acc [] (b @ CHR ''/'' # c)"
    using fields_acc_sep [OF assms(1), of "[]"] by simp
  also have "fields_acc [] (b @ CHR ''/'' # c) = b # fields_acc [] c"
    using fields_acc_sep [OF assms(2), of "[]"] by simp
  also have "fields_acc [] c = (if c = [] then [] else [c])"
    using fields_acc_plain [OF assms(3), of "[]"] by simp
  finally show ?thesis
    unfolding read_parts_def first_line_id [OF nl] by simp
qed

lemma validate_three:
  assumes "CHR ''/'' \<notin> set ident" "CHR ''/'' \<notin> set aid" "CHR ''/'' \<notin> set name"
    and "newline \<notin> set ident" "newline \<notin> set aid" "newline \<notin> set name"
  shows "validate_path_format (base_path @ ''/'' @ ident @ ''/'' @ aid @ ''/'' @ name) base_path
         \<longleftrightarrow> matches_timestamp_dir aid \<and> suffix ''-fuse-mount'' name"
proof -
  have sb: "strip_base (base_path @ ''/'' @ ident @ ''/'' @ aid @ ''/'' @ name) base_path
            = ident @ ''/'' @ aid @ ''/'' @ name"
    by (rule strip_base_below)
  have rp: "read_parts (ident @ ''/'' @ aid @ ''/'' @ name)
            = (if name = [] then [ident, aid] else [ident, aid, name])"
    by (rule read_parts_three [OF assms])
  show ?thesis
    using sb rp by (auto simp: validate_path_format_def Let_def)
qed

lemma read_parts_few:
  "length (filter (\<lambda>c. c = CHR ''/'') (first_line rel)) < 2 \<Longrightarrow> length (read_parts rel) < 3"
  using fields_acc_length [of "[]" "first_line rel"] by (simp add: read_parts_def)

text \<open>
  C7, as amended. Against a literal base path, \<^verbatim>\<open>validate_path_format\<close> accepts a path
  exactly when what is left of its first line after the removal of \<open>base/\<close> splits at the
  separators into at least three fields, the second field is one or more digits, a dash
  and one or more lower-case letters or digits (of any length, not only 16 and 8), and
  the last field ends with \<^verbatim>\<open>-fuse-mount\<close>. So every path with fewer than three
  fields, with a second field of another shape (an upper-case letter, say) or with a last
  field without the suffix is rejected, and paths of more than three components are
  accepted on the same terms. For a path \<open>base/ident/aid/name\<close> of three components the
  fields are \<open>ident\<close>, \<open>aid\<close> and \<open>name\<close>; and a remainder with fewer than two separators
  has fewer than three fields.
\<close>

theorem validate_path_format_shape:
  "(literal_word base \<longrightarrow>
      (validate_path_format path base
         \<longleftrightarrow> 3 \<le> length (read_parts (strip_base path base))
              \<and> (\<exists>ds rs. read_parts (strip_base path base) ! 1 = ds @ ''-'' @ rs
                        \<and> ds \<noteq> [] \<and> list_all is_digit ds
                        \<and> rs \<noteq> [] \<and> list_all is_lower_alnum rs)
              \<and> suffix ''-fuse-mount'' (last (read_parts (strip_base path base)))))
   \<and> (literal_word base \<and> component ident \<and> component aid \<and> component name \<longrightarrow>
      (validate_path_format (base @ ''/'' @ ident @ ''/'' @ aid @ ''/'' @ name) base
         \<longleftrightarrow> (\<exists>ds rs. aid = ds @ ''-'' @ rs \<and> ds \<noteq> [] \<and> list_all is_digit ds
                        \<and> rs \<noteq> [] \<and> list_all is_lower_alnum rs)
              \<and> suffix ''-fuse-mount'' name))
   \<and> (length (filter (\<lambda>c. c = CHR ''/'') (first_line (strip_base path' base'))) < 2
        \<longrightarrow> \<not> validate_path_format path' base')"
proof (intro conjI impI)
  show "validate_path_format path base
         \<longleftrightarrow> 3 \<le> length (read_parts (strip_base path base))
              \<and> (\<exists>ds rs. read_parts (strip_base path base) ! 1 = ds @ ''-'' @ rs
                        \<and> ds \<noteq> [] \<and> list_all is_digit ds
                        \<and> rs \<noteq> [] \<and> list_all is_lower_alnum rs)
              \<and> suffix ''-fuse-mount'' (last (read_parts (strip_base path base)))"
  proof -
    have "validate_path_format path base
          \<longleftrightarrow> 3 \<le> length (read_parts (strip_base path base))
              \<and> matches_timestamp_dir (read_parts (strip_base path base) ! 1)
              \<and> suffix ''-fuse-mount'' (last (read_parts (strip_base path base)))"
      by (auto simp: validate_path_format_def Let_def)
    then show ?thesis unfolding matches_timestamp_dir_iff .
  qed
next
  assume h: "literal_word base \<and> component ident \<and> component aid \<and> component name"
  then show "validate_path_format (base @ ''/'' @ ident @ ''/'' @ aid @ ''/'' @ name) base
         \<longleftrightarrow> (\<exists>ds rs. aid = ds @ ''-'' @ rs \<and> ds \<noteq> [] \<and> list_all is_digit ds
                        \<and> rs \<noteq> [] \<and> list_all is_lower_alnum rs)
              \<and> suffix ''-fuse-mount'' name"
    using validate_three [of ident aid name base] matches_timestamp_dir_iff [of aid]
    by (simp add: component_def)
next
  assume "length (filter (\<lambda>c. c = CHR ''/'') (first_line (strip_base path' base'))) < 2"
  then have "length (read_parts (strip_base path' base')) < 3" by (rule read_parts_few)
  then show "\<not> validate_path_format path' base'"
    by (simp add: validate_path_format_def Let_def)
qed

theorem validate_path_format_shape_witness:
  "validate_path_format ''/runtime-mnt/pod-a/1700000000000000-abcdefgh/data-fuse-mount'' ''/runtime-mnt''
   \<and> \<not> validate_path_format ''/runtime-mnt/pod-a/1700000000000000-ABCDEFGH/data-fuse-mount'' ''/runtime-mnt''
   \<and> \<not> validate_path_format ''/runtime-mnt/pod-a/1700000000000000-abcdefgh/data'' ''/runtime-mnt''
   \<and> \<not> validate_path_format ''/runtime-mnt/pod-a/data-fuse-mount'' ''/runtime-mnt''
   \<and> validate_path_format ''/runtime-mnt/pod-a/1-a/extra/x-fuse-mount'' ''/runtime-mnt''
   \<and> \<not> validate_path_format ''/runtime-mnt/pod-a/1-A/extra/x-fuse-mount'' ''/runtime-mnt''"
proof -
  have lw: "literal_word ''/runtime-mnt''" by (simp add: literal_word_def)
  have c: "component ''pod-a''" "component ''1700000000000000-abcdefgh''"
    "component ''1700000000000000-ABCDEFGH''" "component ''data-fuse-mount''" "component ''data''"
    by (simp_all add: component_def newline_def)
  have ex: "\<exists>ds rs. ''1700000000000000-abcdefgh'' = ds @ ''-'' @ rs \<and> ds \<noteq> [] \<and> list_all is_digit ds
                        \<and> rs \<noteq> [] \<and> list_all is_lower_alnum rs"
    by (rule exI [of _ "''1700000000000000''"], rule exI [of _ "''abcdefgh''"])
       (simp add: is_digit_def is_lower_alnum_def)
  have nm: "\<not> matches_timestamp_dir ''1700000000000000-ABCDEFGH''"
    by (simp add: matches_timestamp_dir_def is_digit_def is_lower_alnum_def)
  have few: "length (filter (\<lambda>c. c = CHR ''/'')
        (first_line (strip_base ''/runtime-mnt/pod-a/data-fuse-mount'' ''/runtime-mnt''))) < 2"
    by (simp add: strip_base_def first_line_def newline_def)
  have p4: "read_parts (strip_base ''/runtime-mnt/pod-a/1-a/extra/x-fuse-mount'' ''/runtime-mnt'')
            = [''pod-a'', ''1-a'', ''extra'', ''x-fuse-mount'']"
    by code_simp
  have ex4: "\<exists>ds rs. ''1-a'' = ds @ ''-'' @ rs \<and> ds \<noteq> [] \<and> list_all is_digit ds
                        \<and> rs \<noteq> [] \<and> list_all is_lower_alnum rs"
    by (rule exI [of _ "''1''"], rule exI [of _ "''a''"])
       (simp add: is_digit_def is_lower_alnum_def)
  have p5: "read_parts (strip_base ''/runtime-mnt/pod-a/1-A/extra/x-fuse-mount'' ''/runtime-mnt'')
            = [''pod-a'', ''1-A'', ''extra'', ''x-fuse-mount'']"
    by code_simp
  have nm5: "\<not> matches_timestamp_dir ''1-A''"
    by (simp add: matches_timestamp_dir_def is_digit_def is_lower_alnum_def)
  have 1: "validate_path_format ''/runtime-mnt/pod-a/1700000000000000-abcdefgh/data-fuse-mount'' ''/runtime-mnt''"
    using validate_path_format_shape [of "''/runtime-mnt''" _ "''pod-a''"
        "''1700000000000000-abcdefgh''" "''data-fuse-mount''", THEN conjunct2, THEN conjunct1]
      lw c ex by (simp add: suffix_def)
  have 2: "\<not> validate_path_format ''/runtime-mnt/pod-a/1700000000000000-ABCDEFGH/data-fuse-mount'' ''/runtime-mnt''"
    using validate_path_format_shape [of "''/runtime-mnt''" _ "''pod-a''"
        "''1700000000000000-ABCDEFGH''" "''data-fuse-mount''", THEN conjunct2, THEN conjunct1]
      lw c nm matches_timestamp_dir_iff [of "''1700000000000000-ABCDEFGH''"] by simp
  have 3: "\<not> validate_path_format ''/runtime-mnt/pod-a/1700000000000000-abcdefgh/data'' ''/runtime-mnt''"
    using validate_path_format_shape [of "''/runtime-mnt''" _ "''pod-a''"
        "''1700000000000000-abcdefgh''" "''data''", THEN conjunct2, THEN conjunct1]
      lw c by (simp add: suffix_def)
  have 4: "\<not> validate_path_format ''/runtime-mnt/pod-a/data-fuse-mount'' ''/runtime-mnt''"
    using validate_path_format_shape [of _ _ _ _ _ "''/runtime-mnt/pod-a/data-fuse-mount''"
        "''/runtime-mnt''", THEN conjunct2, THEN conjunct2] few
    by blast
  have 5: "validate_path_format ''/runtime-mnt/pod-a/1-a/extra/x-fuse-mount'' ''/runtime-mnt''"
    using validate_path_format_shape [of "''/runtime-mnt''"
        "''/runtime-mnt/pod-a/1-a/extra/x-fuse-mount''", THEN conjunct1]
      lw ex4 by (simp add: p4 suffix_def)
  have 6: "\<not> validate_path_format ''/runtime-mnt/pod-a/1-A/extra/x-fuse-mount'' ''/runtime-mnt''"
    using validate_path_format_shape [of "''/runtime-mnt''"
        "''/runtime-mnt/pod-a/1-A/extra/x-fuse-mount''", THEN conjunct1]
      lw nm5 matches_timestamp_dir_iff [of "''1-A''"] by (simp add: p5)
  show ?thesis using 1 2 3 4 5 6 by blast
qed

text \<open>
  C7 as stated fails: an allocation id of one digit and one letter, of the wrong length,
  is accepted.
\<close>

theorem validate_path_format_short_id_counterexample:
  "validate_path_format ''/runtime-mnt/pod-a/1-a/data-fuse-mount'' ''/runtime-mnt''
   \<and> length ''1-a'' \<noteq> 16 + 1 + 8"
  by (simp add: validate_path_format_def strip_base_def read_parts_def first_line_def newline_def
      matches_timestamp_dir_def is_digit_def is_lower_alnum_def suffix_def Let_def)

text \<open>
  C8 as stated fails: a candidate that does not lie below the base path is accepted
  when its own second component has the shape of an allocation id.
\<close>

theorem validate_path_format_outside_counterexample:
  "\<not> prefix (''/runtime-mnt'' @ ''/'') ''/2024-backup/data/old-fuse-mount''
   \<and> validate_path_format ''/2024-backup/data/old-fuse-mount'' ''/runtime-mnt''"
  by (simp add: validate_path_format_def strip_base_def read_parts_def first_line_def newline_def
      matches_timestamp_dir_def is_digit_def is_lower_alnum_def suffix_def Let_def)

text \<open>
  C8, as amended. The validation does not test that the candidate lies below the base
  path. For a candidate that does not start with the (literal) base path and a
  separator, nothing is removed and the candidate itself is split: it is accepted exactly
  when it has at least three fields, the second of the allocation id shape and the last
  ending with \<^verbatim>\<open>-fuse-mount\<close>, and rejected otherwise.
\<close>

theorem validate_path_format_outside:
  "literal_word base_path \<Longrightarrow> \<not> prefix (base_path @ ''/'') path \<Longrightarrow>
   validate_path_format path base_path
   \<longleftrightarrow> 3 \<le> length (read_parts path) \<and> matches_timestamp_dir (read_parts path ! 1)
       \<and> suffix ''-fuse-mount'' (last (read_parts path))"
  by (auto simp: validate_path_format_def strip_base_other Let_def)

theorem validate_path_format_outside_witness:
  "literal_word ''/runtime-mnt'' \<and> \<not> prefix (''/runtime-mnt'' @ ''/'') ''/etc/ssl/certs''
   \<and> \<not> validate_path_format ''/etc/ssl/certs'' ''/runtime-mnt''"
proof -
  have lw: "literal_word ''/runtime-mnt''" by (simp add: literal_word_def)
  have np: "\<not> prefix (''/runtime-mnt'' @ ''/'') ''/etc/ssl/certs''" by simp
  have "\<not> matches_timestamp_dir (read_parts ''/etc/ssl/certs'' ! 1)"
    by (simp add: read_parts_def first_line_def newline_def matches_timestamp_dir_def is_digit_def)
  then show ?thesis
    using validate_path_format_outside [OF lw np] lw np by blast
qed

section \<open>Properties of the sweep\<close>

lemma remove_lookup:
  "remove_at t n dir = Some n' \<Longrightarrow> \<exists>m. lookup n dir = Some (Dir m [])"
  "remove_in t es c cs = Some es' \<Longrightarrow> \<exists>m. lookup_in es c cs = Some (Dir m [])"
proof (induction t n dir and t es c cs arbitrary: n' and es' rule: remove_at_remove_in.induct)
  case (5 t e es c cs)
  then show ?case
    by (cases "snd e") (auto split: if_splits list.splits node.splits)
qed auto

lemma rmdir_Some: "rmdir s dir = Some s' \<Longrightarrow> \<exists>m. lookup (root s) dir = Some (Dir m [])"
  by (auto simp: rmdir_def dest: remove_lookup(1))

lemma rmdir_nonempty: "ls_A cfg s dir \<noteq> [] \<Longrightarrow> rmdir s dir = None"
proof (rule ccontr)
  assume l: "ls_A cfg s dir \<noteq> []" and "rmdir s dir \<noteq> None"
  then obtain s' where "rmdir s dir = Some s'" by auto
  then obtain m where "lookup (root s) dir = Some (Dir m [])" using rmdir_Some by blast
  then show False using l by (simp add: ls_A_def)
qed

lemma safe_remove_dir_events:
  "safe_remove_dir cfg s dir = (ok, s', r) \<Longrightarrow>
   \<forall>e \<in> set r. guarded cfg e \<and> target e = dir \<and> before e = s"
  by (auto simp: safe_remove_dir_def guarded_def split: if_splits option.splits)

lemma sweep_leaf_events:
  assumes "length fuse_mount_dir = 3"
    and "\<forall>e \<in> set (removals w). guarded cfg e \<and> aged cfg e"
  shows "\<forall>e \<in> set (removals (sweep_leaf cfg fuse_mount_dir w)). guarded cfg e \<and> aged cfg e"
proof -
  obtain ok s1 r1 where a: "safe_remove_dir cfg (st w) fuse_mount_dir = (ok, s1, r1)"
    by (metis prod_cases3)
  obtain ok2 s2 r2 where b: "safe_remove_dir cfg s1 (butlast fuse_mount_dir) = (ok2, s2, r2)"
    by (metis prod_cases3)
  have r1: "\<forall>e \<in> set r1. guarded cfg e \<and> target e = fuse_mount_dir \<and> before e = st w"
    using safe_remove_dir_events [OF a] .
  have r2: "\<forall>e \<in> set r2. guarded cfg e \<and> aged cfg e"
    using safe_remove_dir_events [OF b] assms(1) by (auto simp: aged_def)
  show ?thesis
    using assms(2) r1 r2 a b
    by (auto simp: sweep_leaf_def Let_def aged_def split: if_splits bool.splits)
qed

lemma fold_sweep_leaf_events:
  "\<forall>l \<in> set ls. length l = 3 \<Longrightarrow> \<forall>e \<in> set (removals w). guarded cfg e \<and> aged cfg e \<Longrightarrow>
   \<forall>e \<in> set (removals (fold (sweep_leaf cfg) ls w)). guarded cfg e \<and> aged cfg e"
proof (induction ls arbitrary: w)
  case Nil
  then show ?case by simp
next
  case (Cons l ls)
  have "\<forall>e \<in> set (removals (sweep_leaf cfg l w)). guarded cfg e \<and> aged cfg e"
    using sweep_leaf_events [of l w cfg] Cons.prems by simp
  then show ?case using Cons.IH [of "sweep_leaf cfg l w"] Cons.prems(1) by simp
qed

lemma subdirs_length: "l \<in> set (subdirs s dir) \<Longrightarrow> length l = Suc (length dir)"
  by (auto simp: subdirs_def split: option.splits node.splits)

lemma find_fuse_mount_dirs_length:
  "l \<in> set (find_fuse_mount_dirs s parent_dir) \<Longrightarrow> length l = Suc (Suc (length parent_dir))"
  by (auto simp: find_fuse_mount_dirs_def dest!: subdirs_length)

lemma cleanup_parent_dir_events:
  assumes "length parent_dir = 1"
  shows "\<forall>e \<in> set (removals (fst (cleanup_parent_dir cfg s parent_dir))). guarded cfg e \<and> aged cfg e"
proof -
  have "\<forall>l \<in> set (find_fuse_mount_dirs s parent_dir). length l = 3"
    using find_fuse_mount_dirs_length [of _ s parent_dir] assms by simp
  then show ?thesis
    using fold_sweep_leaf_events [of "find_fuse_mount_dirs s parent_dir"
        "\<lparr>st = s, deleted_count = 0, skipped_count = 0, removals = []\<rparr>" cfg]
    by (simp add: cleanup_parent_dir_def Let_def)
qed

lemma sweep_pods_events:
  "\<forall>p \<in> set pods. length p = 1 \<Longrightarrow> \<forall>e \<in> set log. guarded cfg e \<and> aged cfg e \<Longrightarrow>
   sweep_pods cfg pods s n log = (x, s', n', log') \<Longrightarrow>
   \<forall>e \<in> set log'. guarded cfg e \<and> aged cfg e"
proof (induction pods arbitrary: s n log)
  case Nil
  then show ?case by simp
next
  case (Cons p pods)
  obtain w out where c: "cleanup_parent_dir cfg s p = (w, out)" by (cases "cleanup_parent_dir cfg s p")
  have w: "\<forall>e \<in> set (removals w). guarded cfg e \<and> aged cfg e"
    using cleanup_parent_dir_events [of p cfg s] Cons.prems(1) c by simp
  then have l: "\<forall>e \<in> set (log @ removals w). guarded cfg e \<and> aged cfg e"
    using Cons.prems(2) by auto
  show ?case
  proof (cases "arith_value out")
    case None
    then show ?thesis using Cons.prems(3) c l by simp
  next
    case (Some k)
    then have "sweep_pods cfg pods (st w) (n + k) (log @ removals w) = (x, s', n', log')"
      using Cons.prems(3) c by simp
    then show ?thesis using Cons.IH [OF _ l] Cons.prems(1) by simp
  qed
qed

lemma cleanup_pod_dirs_events:
  "\<forall>p \<in> set pods. length p = 1 \<Longrightarrow> \<forall>e \<in> set log. guarded cfg e \<and> aged cfg e \<Longrightarrow>
   cleanup_pod_dirs cfg pods s log = (s', log') \<Longrightarrow>
   \<forall>e \<in> set log'. guarded cfg e \<and> aged cfg e"
proof (induction pods arbitrary: s log)
  case Nil
  then show ?case by simp
next
  case (Cons p pods)
  obtain ok s1 r where a: "safe_remove_dir cfg s p = (ok, s1, r)" by (metis prod_cases3)
  have "\<forall>e \<in> set r. guarded cfg e \<and> aged cfg e"
    using safe_remove_dir_events [OF a] Cons.prems(1) by (auto simp: aged_def)
  then have l: "\<forall>e \<in> set (log @ r). guarded cfg e \<and> aged cfg e"
    using Cons.prems(2) by auto
  show ?case
  proof (cases "is_dir s p \<and> ls_A cfg s p = []")
    case True
    then have "cleanup_pod_dirs cfg pods s1 (log @ r) = (s', log')"
      using Cons.prems(3) a by simp
    then show ?thesis using Cons.IH [OF _ l] Cons.prems(1) by simp
  next
    case False
    then have "cleanup_pod_dirs cfg pods s log = (s', log')"
      using Cons.prems(3) by auto
    then show ?thesis using Cons.IH [OF _ Cons.prems(2)] Cons.prems(1) by simp
  qed
qed

lemma main_cleanup_events:
  "\<forall>e \<in> set (trace (main_cleanup cfg s)). guarded cfg e \<and> aged cfg e"
proof -
  have pods: "\<forall>p \<in> set (subdirs s []). length p = 1"
    using subdirs_length [of _ s "[]"] by simp
  obtain x s1 n1 log1 where sp: "sweep_pods cfg (subdirs s []) s 0 [] = (x, s1, n1, log1)"
    by (metis prod_cases4)
  have l1: "\<forall>e \<in> set log1. guarded cfg e \<and> aged cfg e"
    using sweep_pods_events [OF pods _ sp] by simp
  obtain s2 log2 where cp: "cleanup_pod_dirs cfg (subdirs s []) s1 log1 = (s2, log2)"
    by (cases "cleanup_pod_dirs cfg (subdirs s []) s1 log1")
  have l2: "\<forall>e \<in> set log2. guarded cfg e \<and> aged cfg e"
    using cleanup_pod_dirs_events [OF pods l1 cp] .
  show ?thesis
    using sp cp l1 l2 by (cases x) (simp_all add: main_cleanup_def Let_def)
qed

text \<open>
  C2. Whatever the configuration and the state, every directory that a run removes (or,
  in a dry run, announces) was, in the state just before, not reported mounted by
  \<^verbatim>\<open>is_mounted\<close> and listed empty by the recheck of \<^verbatim>\<open>safe_remove_dir\<close>; and
  rmdir fails on every directory whose listing is not empty.
\<close>

theorem removals_unmounted_and_empty:
  "(\<forall>e \<in> set (trace (main_cleanup cfg s)).
       \<not> is_mounted cfg (before e) (target e) \<and> ls_A cfg (before e) (target e) = [])
   \<and> (ls_A cfg' s' dir \<noteq> [] \<longrightarrow> rmdir s' dir = None)"
  using main_cleanup_events [of cfg s] rmdir_nonempty [of cfg' s' dir]
  by (simp add: guarded_def)

theorem removals_unmounted_and_empty_witness:
  "hd (trace (main_cleanup example_config example_sys))
     \<in> set (trace (main_cleanup example_config example_sys))
   \<and> \<not> is_mounted example_config
         (before (hd (trace (main_cleanup example_config example_sys))))
         (target (hd (trace (main_cleanup example_config example_sys))))
   \<and> ls_A example_config
         (before (hd (trace (main_cleanup example_config example_sys))))
         (target (hd (trace (main_cleanup example_config example_sys)))) = []
   \<and> ls_A example_config example_sys [''pod-b'', ''1700000000000001-abcdefgh'', ''data-fuse-mount''] \<noteq> []
   \<and> rmdir example_sys [''pod-b'', ''1700000000000001-abcdefgh'', ''data-fuse-mount''] = None"
proof -
  have "map target (trace (main_cleanup example_config example_sys)) \<noteq> []" by code_simp
  then have ne: "hd (trace (main_cleanup example_config example_sys))
                 \<in> set (trace (main_cleanup example_config example_sys))" by auto
  have l: "ls_A example_config example_sys
             [''pod-b'', ''1700000000000001-abcdefgh'', ''data-fuse-mount''] \<noteq> []"
    by code_simp
  show ?thesis
    using removals_unmounted_and_empty [of example_config example_sys example_config example_sys
        "[''pod-b'', ''1700000000000001-abcdefgh'', ''data-fuse-mount'']"] ne l
    by blast
qed

lemma wrap64_id:
  "- 9223372036854775808 \<le> x \<Longrightarrow> x \<le> 9223372036854775807 \<Longrightarrow> wrap64 x = x"
  by (simp add: wrap64_def)

text \<open>
  C3 as stated fails. The allocation directory of \<open>pod-a\<close>, modified an hour ago (age 0
  days, threshold 90), is removed once its leaf is gone: its age is never looked at. And
  with an age threshold of \<open>2^63\<close>, which the shell reads as \<open>-2^63\<close>, the leaf of
  \<open>pod-a\<close>, 100 days old, is removed.
\<close>

theorem allocation_dir_removed_young_counterexample:
  "is_dir example_sys [''pod-a'', ''1700000000000000-abcdefgh'']
   \<and> get_dir_age_days example_sys [''pod-a'', ''1700000000000000-abcdefgh''] < AGE_DAYS example_config
   \<and> map target (trace (main_cleanup example_config example_sys)) =
       [[''pod-a'', ''1700000000000000-abcdefgh'', ''data-fuse-mount''],
        [''pod-a'', ''1700000000000000-abcdefgh'']]
   \<and> get_dir_age_days (before (trace (main_cleanup example_config example_sys) ! 1))
        (target (trace (main_cleanup example_config example_sys) ! 1)) < AGE_DAYS example_config
   \<and> \<not> is_dir (final (main_cleanup example_config example_sys)) [''pod-a'', ''1700000000000000-abcdefgh'']
   \<and> get_dir_age_days example_sys [''pod-a'', ''1700000000000000-abcdefgh'', ''data-fuse-mount'']
        < AGE_DAYS (example_config\<lparr>AGE_DAYS := 9223372036854775808\<rparr>)
   \<and> \<not> is_dir (final (main_cleanup (example_config\<lparr>AGE_DAYS := 9223372036854775808\<rparr>) example_sys))
         [''pod-a'', ''1700000000000000-abcdefgh'', ''data-fuse-mount'']"
  by code_simp

text \<open>
  C3, as amended. Every leaf directory that a run removes (a directory three levels below
  \<^verbatim>\<open>BASE_DIR\<close>) had, in the state just before, an age in days of at least the age
  threshold as the shell reads it, which is \<^verbatim>\<open>AGE_DAYS\<close> itself whenever that lies in the
  signed 64-bit range. Nothing is said of the age of the other directories.
\<close>

theorem removed_leaves_are_old:
  "(\<forall>e \<in> set (trace (main_cleanup cfg s)).
      length (target e) = 3 \<longrightarrow> wrap64 (AGE_DAYS cfg) \<le> get_dir_age_days (before e) (target e))
   \<and> (- 9223372036854775808 \<le> AGE_DAYS cfg \<and> AGE_DAYS cfg \<le> 9223372036854775807 \<longrightarrow>
        (\<forall>e \<in> set (trace (main_cleanup cfg s)).
           length (target e) = 3 \<longrightarrow> AGE_DAYS cfg \<le> get_dir_age_days (before e) (target e)))"
  using main_cleanup_events [of cfg s] wrap64_id [of "AGE_DAYS cfg"] by (auto simp: aged_def)

theorem removed_leaves_are_old_witness:
  "hd (trace (main_cleanup example_config example_sys)) \<in> set (trace (main_cleanup example_config example_sys))
   \<and> length (target (hd (trace (main_cleanup example_config example_sys)))) = 3
   \<and> - 9223372036854775808 \<le> AGE_DAYS example_config
   \<and> AGE_DAYS example_config \<le> 9223372036854775807
   \<and> AGE_DAYS example_config \<le> get_dir_age_days
        (before (hd (trace (main_cleanup example_config example_sys))))
        (target (hd (trace (main_cleanup example_config example_sys))))"
proof -
  have "map target (trace (main_cleanup example_config example_sys)) \<noteq> []" by code_simp
  then have ne: "hd (trace (main_cleanup example_config example_sys))
                 \<in> set (trace (main_cleanup example_config example_sys))" by auto
  have l: "length (target (hd (trace (main_cleanup example_config example_sys)))) = 3"
    by code_simp
  have r: "- 9223372036854775808 \<le> AGE_DAYS example_config
           \<and> AGE_DAYS example_config \<le> 9223372036854775807"
    by (simp add: example_config_def)
  show ?thesis
    using removed_leaves_are_old [of example_config example_sys] ne l r by blast
qed

text \<open>
  C4 as stated fails: with a threshold of \<open>2^63\<close>, which the shell reads as \<open>-2^63\<close>, the
  census of 2 is below the configured threshold and the run removes the leaf of \<open>pod-a\<close>
  and its allocation directory.
\<close>

theorem threshold_out_of_range_counterexample:
  "int (total_subdirs example_sys) < THRESHOLD (example_config\<lparr>THRESHOLD := 9223372036854775808\<rparr>)
   \<and> map target (trace (main_cleanup (example_config\<lparr>THRESHOLD := 9223372036854775808\<rparr>) example_sys)) =
       [[''pod-a'', ''1700000000000000-abcdefgh'', ''data-fuse-mount''],
        [''pod-a'', ''1700000000000000-abcdefgh'']]"
  by code_simp

text \<open>
  C4, as amended. When the census \<^verbatim>\<open>total_subdirs\<close> is below \<^verbatim>\<open>THRESHOLD\<close> as the shell
  compares them, in signed 64-bit arithmetic, the run removes nothing, leaves the state
  as it was and ends normally, whatever the directories are; this is so whenever the
  census is below a threshold of at most \<open>2^63 - 1\<close>.
\<close>

theorem below_threshold_no_removal:
  "(wrap64 (int (total_subdirs s)) < wrap64 (THRESHOLD cfg) \<longrightarrow>
      trace (main_cleanup cfg s) = [] \<and> final (main_cleanup cfg s) = s
      \<and> exit_status (main_cleanup cfg s) = Completed)
   \<and> (int (total_subdirs s) < THRESHOLD cfg \<and> THRESHOLD cfg \<le> 9223372036854775807 \<longrightarrow>
      trace (main_cleanup cfg s) = [] \<and> final (main_cleanup cfg s) = s
      \<and> exit_status (main_cleanup cfg s) = Completed)"
proof -
  have a: "wrap64 (int (total_subdirs s)) < wrap64 (THRESHOLD cfg) \<Longrightarrow>
      trace (main_cleanup cfg s) = [] \<and> final (main_cleanup cfg s) = s
      \<and> exit_status (main_cleanup cfg s) = Completed"
    by (simp add: main_cleanup_def Let_def)
  have b: "int (total_subdirs s) < THRESHOLD cfg \<and> THRESHOLD cfg \<le> 9223372036854775807 \<Longrightarrow>
      wrap64 (int (total_subdirs s)) < wrap64 (THRESHOLD cfg)"
    by (simp add: wrap64_id)
  show ?thesis using a b by blast
qed

theorem below_threshold_no_removal_witness:
  "int (total_subdirs example_sys) < THRESHOLD (example_config\<lparr>THRESHOLD := 1000\<rparr>)
   \<and> THRESHOLD (example_config\<lparr>THRESHOLD := 1000\<rparr>) \<le> 9223372036854775807
   \<and> wrap64 (int (total_subdirs example_sys)) < wrap64 (THRESHOLD (example_config\<lparr>THRESHOLD := 1000\<rparr>))
   \<and> trace (main_cleanup (example_config\<lparr>THRESHOLD := 1000\<rparr>) example_sys) = []
   \<and> final (main_cleanup (example_config\<lparr>THRESHOLD := 1000\<rparr>) example_sys) = example_sys
   \<and> trace (main_cleanup example_config example_sys) \<noteq> []"
proof -
  have h: "int (total_subdirs example_sys) < THRESHOLD (example_config\<lparr>THRESHOLD := 1000\<rparr>)"
    by code_simp
  have b: "THRESHOLD (example_config\<lparr>THRESHOLD := 1000\<rparr>) \<le> 9223372036854775807" by simp
  have w: "wrap64 (int (total_subdirs example_sys))
           < wrap64 (THRESHOLD (example_config\<lparr>THRESHOLD := 1000\<rparr>))"
    by code_simp
  have "map target (trace (main_cleanup example_config example_sys)) \<noteq> []" by code_simp
  then have ne: "trace (main_cleanup example_config example_sys) \<noteq> []" by auto
  show ?thesis
    using below_threshold_no_removal [of example_sys "example_config\<lparr>THRESHOLD := 1000\<rparr>"] h b w ne
    by blast
qed

text \<open>A dry run changes nothing.\<close>

lemma safe_remove_dir_dry:
  "DRY_RUN cfg \<Longrightarrow> fst (snd (safe_remove_dir cfg s dir)) = s"
  by (simp add: safe_remove_dir_def)

lemma sweep_leaf_dry: "DRY_RUN cfg \<Longrightarrow> st (sweep_leaf cfg l w) = st w"
proof -
  assume d: "DRY_RUN cfg"
  obtain ok s1 r1 where a: "safe_remove_dir cfg (st w) l = (ok, s1, r1)"
    by (metis prod_cases3)
  obtain ok2 s2 r2 where b: "safe_remove_dir cfg s1 (butlast l) = (ok2, s2, r2)"
    by (metis prod_cases3)
  have "s1 = st w" using safe_remove_dir_dry [OF d, of "st w" l] a by simp
  moreover have "s2 = s1" using safe_remove_dir_dry [OF d, of s1 "butlast l"] b by simp
  ultimately show ?thesis
    using a b by (auto simp: sweep_leaf_def Let_def split: if_splits bool.splits)
qed

lemma fold_sweep_leaf_dry: "DRY_RUN cfg \<Longrightarrow> st (fold (sweep_leaf cfg) ls w) = st w"
  by (induction ls arbitrary: w) (simp_all add: sweep_leaf_dry)

lemma cleanup_parent_dir_dry:
  "DRY_RUN cfg \<Longrightarrow> st (fst (cleanup_parent_dir cfg s parent_dir)) = s"
  by (simp add: cleanup_parent_dir_def Let_def fold_sweep_leaf_dry)

lemma sweep_pods_dry:
  "DRY_RUN cfg \<Longrightarrow> fst (snd (sweep_pods cfg pods s n log)) = s"
proof (induction pods arbitrary: s n log)
  case Nil
  then show ?case by simp
next
  case (Cons p pods)
  obtain w out where c: "cleanup_parent_dir cfg s p = (w, out)"
    by (cases "cleanup_parent_dir cfg s p")
  then have "st w = s" using cleanup_parent_dir_dry [OF Cons.prems, of s p] by simp
  then show ?case using c Cons.IH [OF Cons.prems] by (simp split: option.splits)
qed

lemma cleanup_pod_dirs_dry:
  "DRY_RUN cfg \<Longrightarrow> fst (cleanup_pod_dirs cfg pods s log) = s"
proof (induction pods arbitrary: s log)
  case Nil
  then show ?case by simp
next
  case (Cons p pods)
  obtain ok s1 r where a: "safe_remove_dir cfg s p = (ok, s1, r)" by (metis prod_cases3)
  then have "s1 = s" using safe_remove_dir_dry [OF Cons.prems, of s p] by simp
  then show ?case using a Cons.IH [OF Cons.prems] by simp
qed

lemma dry_run_changes_nothing: "DRY_RUN cfg \<Longrightarrow> final (main_cleanup cfg s) = s"
proof -
  assume d: "DRY_RUN cfg"
  obtain x s1 n1 log1 where sp: "sweep_pods cfg (subdirs s []) s 0 [] = (x, s1, n1, log1)"
    by (metis prod_cases4)
  then have s1: "s1 = s" using sweep_pods_dry [OF d, of "subdirs s []" s 0 "[]"] by simp
  obtain s2 log2 where cp: "cleanup_pod_dirs cfg (subdirs s []) s1 log1 = (s2, log2)"
    by (cases "cleanup_pod_dirs cfg (subdirs s []) s1 log1")
  then have s2: "s2 = s" using cleanup_pod_dirs_dry [OF d, of "subdirs s []" s1 log1] s1 by simp
  show ?thesis
    using sp cp s1 s2 by (cases x) (simp_all add: main_cleanup_def Let_def)
qed

text \<open>
  C5 fails on the script. On the example state the dry run announces the leaf of \<open>pod-a\<close>
  only, while the real run removes the leaf and then its allocation directory: in a dry
  run the leaf is still there when \<^verbatim>\<open>ls -A "$timestamp_dir"\<close> is evaluated, so the
  allocation directory is never announced.
\<close>

theorem dry_run_misses_allocation_dir:
  "map target (trace (main_cleanup (example_config\<lparr>DRY_RUN := True\<rparr>) example_sys)) =
     [[''pod-a'', ''1700000000000000-abcdefgh'', ''data-fuse-mount'']]
   \<and> map target (trace (main_cleanup (example_config\<lparr>DRY_RUN := False\<rparr>) example_sys)) =
     [[''pod-a'', ''1700000000000000-abcdefgh'', ''data-fuse-mount''],
      [''pod-a'', ''1700000000000000-abcdefgh'']]"
  by code_simp




text \<open>The loop over the Pod directories ends with the arithmetic error in its first
  round: the captured output always starts with a log line.\<close>

lemma sweep_pods_stops:
  "fst (sweep_pods cfg (pod_dir # rest) s n log) = Arithmetic_error"
  by (simp add: cleanup_parent_dir_def Let_def)

text \<open>Inside one Pod directory every directory that find printed is counted, as deleted
  or as skipped; and a run that passes the threshold and finds a Pod directory ends with
  the arithmetic error.\<close>

lemma sweep_leaf_counts:
  "deleted_count (sweep_leaf cfg l w) + skipped_count (sweep_leaf cfg l w)
   = Suc (deleted_count w + skipped_count w)"
proof -
  obtain ok s1 r1 where a: "safe_remove_dir cfg (st w) l = (ok, s1, r1)"
    by (metis prod_cases3)
  obtain ok2 s2 r2 where b: "safe_remove_dir cfg s1 (butlast l) = (ok2, s2, r2)"
    by (metis prod_cases3)
  show ?thesis
    using a b by (auto simp: sweep_leaf_def Let_def split: if_splits bool.splits)
qed

lemma fold_sweep_leaf_counts:
  "deleted_count (fold (sweep_leaf cfg) ls w) + skipped_count (fold (sweep_leaf cfg) ls w)
   = length ls + (deleted_count w + skipped_count w)"
  by (induction ls arbitrary: w) (simp_all add: sweep_leaf_counts)

lemma cleanup_parent_dir_counts:
  "deleted_count (fst (cleanup_parent_dir cfg s parent_dir))
   + skipped_count (fst (cleanup_parent_dir cfg s parent_dir))
   = length (find_fuse_mount_dirs s parent_dir)"
  by (simp add: cleanup_parent_dir_def Let_def fold_sweep_leaf_counts)

lemma main_cleanup_stops:
  "\<not> wrap64 (int (total_subdirs s)) < wrap64 (THRESHOLD cfg) \<Longrightarrow> subdirs s [] \<noteq> [] \<Longrightarrow>
   exit_status (main_cleanup cfg s) = Arithmetic_error"
proof -
  assume t: "\<not> wrap64 (int (total_subdirs s)) < wrap64 (THRESHOLD cfg)"
    and "subdirs s [] \<noteq> []"
  then obtain p ps where ps: "subdirs s [] = p # ps" by (cases "subdirs s []") auto
  obtain x s1 n1 log1 where sp: "sweep_pods cfg (p # ps) s 0 [] = (x, s1, n1, log1)"
    by (metis prod_cases4)
  then have "x = Arithmetic_error" using sweep_pods_stops [of cfg p ps s 0 "[]"] by simp
  then show ?thesis using t ps sp by (simp add: main_cleanup_def Let_def)
qed

text \<open>
  C9 fails on the script. The leaf of the first Pod directory is too new and is counted
  as skipped; the sweep of the second Pod directory alone would remove its leaf and its
  allocation directory; but the run ends with the arithmetic error after the first Pod
  directory, removes nothing and leaves the eligible leaf of the second in place.
\<close>

theorem sweep_stops_after_first_pod:
  "skipped_count (fst (cleanup_parent_dir example_config young_first_sys [''pod-a''])) = 1
   \<and> map target (removals (fst (cleanup_parent_dir example_config young_first_sys [''pod-b'']))) =
       [[''pod-b'', ''1700000000000001-abcdefgh'', ''data-fuse-mount''],
        [''pod-b'', ''1700000000000001-abcdefgh'']]
   \<and> exit_status (main_cleanup example_config young_first_sys) = Arithmetic_error
   \<and> map target (trace (main_cleanup example_config young_first_sys)) = []
   \<and> is_dir (final (main_cleanup example_config young_first_sys))
       [''pod-b'', ''1700000000000001-abcdefgh'', ''data-fuse-mount'']"
  by code_simp

text \<open>
  C10. A directory whose entries are all hidden, and not none, is listed with these
  entries by \<^verbatim>\<open>ls -A\<close>; \<^verbatim>\<open>safe_remove_dir\<close> skips it and changes nothing, and rmdir
  fails on it. And in every run, a directory that is removed had no entry at all, hidden
  or not, in the state just before.
\<close>

theorem hidden_entries_block_removal:
  "(lookup (root s) dir = Some (Dir m es) \<and> es \<noteq> [] \<and> (\<forall>e \<in> set es. prefix ''.'' (fst e))
      \<longrightarrow> ls_A cfg s dir = map fst es \<and> ls_A cfg s dir \<noteq> []
          \<and> safe_remove_dir cfg s dir = (False, s, []) \<and> rmdir s dir = None)
   \<and> (\<forall>e \<in> set (trace (main_cleanup cfg' s')).
         \<forall>m' es'. lookup (root (before e)) (target e) = Some (Dir m' es') \<longrightarrow> es' = [])"
proof (intro conjI impI ballI allI)
  assume h: "lookup (root s) dir = Some (Dir m es) \<and> es \<noteq> [] \<and> (\<forall>e \<in> set es. prefix ''.'' (fst e))"
  then show l: "ls_A cfg s dir = map fst es" by (simp add: ls_A_def)
  then show ne: "ls_A cfg s dir \<noteq> []" using h by simp
  then show "rmdir s dir = None" by (rule rmdir_nonempty)
  show "safe_remove_dir cfg s dir = (False, s, [])"
    using ne by (simp add: safe_remove_dir_def)
next
  fix e m' es'
  assume "e \<in> set (trace (main_cleanup cfg' s'))"
    and "lookup (root (before e)) (target e) = Some (Dir m' es')"
  then show "es' = []"
    using main_cleanup_events [of cfg' s'] by (auto simp: guarded_def ls_A_def)
qed

theorem hidden_entries_block_removal_witness:
  "ls_A example_config example_sys [''pod-b'', ''1700000000000001-abcdefgh'', ''data-fuse-mount'']
     = [''.fuse_hidden01'']
   \<and> safe_remove_dir example_config example_sys
       [''pod-b'', ''1700000000000001-abcdefgh'', ''data-fuse-mount''] = (False, example_sys, [])
   \<and> rmdir example_sys [''pod-b'', ''1700000000000001-abcdefgh'', ''data-fuse-mount''] = None
   \<and> hd (trace (main_cleanup example_config example_sys)) \<in> set (trace (main_cleanup example_config example_sys))
   \<and> lookup (root (before (hd (trace (main_cleanup example_config example_sys)))))
        (target (hd (trace (main_cleanup example_config example_sys)))) = Some (Dir 0 [])"
proof -
  have h: "lookup (root example_sys) [''pod-b'', ''1700000000000001-abcdefgh'', ''data-fuse-mount'']
             = Some (Dir 0 [(''.fuse_hidden01'', File 0)])
           \<and> [(''.fuse_hidden01'', File 0)] \<noteq> []
           \<and> (\<forall>e \<in> set [(''.fuse_hidden01'', File 0)]. prefix ''.'' (fst e))"
    by (simp add: example_sys_def)
  have "map target (trace (main_cleanup example_config example_sys)) \<noteq> []" by code_simp
  then have ne: "hd (trace (main_cleanup example_config example_sys))
                 \<in> set (trace (main_cleanup example_config example_sys))" by auto
  have lk: "lookup (root (before (hd (trace (main_cleanup example_config example_sys)))))
        (target (hd (trace (main_cleanup example_config example_sys)))) = Some (Dir 0 [])"
    by code_simp
  show ?thesis
    using hidden_entries_block_removal [of example_sys
        "[''pod-b'', ''1700000000000001-abcdefgh'', ''data-fuse-mount'']" 0
        "[(''.fuse_hidden01'', File 0)]" example_config example_config example_sys] h ne lk
    by simp
qed

section \<open>Properties of the path allocation\<close>

























end
